theory Spec2Isabelle
  imports Main "HOL-Library.Word"
begin

section \<open>The token registry (contract MorphNFT)\<close>

text \<open>
  The contract of the tutorial (README.md, step 3):
  \<^verbatim>\<open>
  contract MorphNFT is ERC721URIStorage, Ownable {
      uint256 public tokenCounter;
      constructor() ERC721("MorphNFT", "MNFT") { tokenCounter = 0; }
      function createNFT(string memory tokenURI) public onlyOwner returns (uint256) {
          uint256 newItemId = tokenCounter;
          _safeMint(msg.sender, newItemId);
          _setTokenURI(newItemId, tokenURI);
          tokenCounter += 1;
          return newItemId;
      }
  }
  \<close>
  Solidity's \<open>uint256\<close> is a 256-bit word and an \<open>address\<close> a 160-bit word. A revert
  is a value \<open>Inl e\<close> of the result type; the storage a reverted call has written is
  discarded by the caller of the function (\<open>transact\<close> below), as the virtual machine does.
\<close>

type_synonym uint256 = "256 word"
type_synonym address = "160 word"

datatype error =
    Authorization         \<comment> \<open>caller is not the owner\<close>
  | NotFound              \<comment> \<open>query for an identifier that was never assigned\<close>
  | AlreadyAssigned       \<comment> \<open>the identifier has an owner already\<close>
  | ReceiverRejected      \<comment> \<open>the safe-assignment check of the recipient failed\<close>
  | ArithmeticOverflow    \<comment> \<open>checked arithmetic of Solidity 0.8\<close>

text \<open>
  The storage of the registry, with the names of the specification's data model:
  \<open>owner\<close> (Ownable), \<open>tokenCounter\<close> (the contract's own variable), \<open>tokens\<close>
  (identifier to owning principal) and \<open>tokenURIs\<close> (identifier to metadata pointer).
\<close>

record registry =
  owner :: address
  tokenCounter :: uint256
  tokens :: "uint256 \<rightharpoonup> address"
  tokenURIs :: "uint256 \<rightharpoonup> string"

text \<open>
  What a call of \<open>createNFT\<close> brings with it: \<open>msg.sender\<close>, the argument
  \<open>tokenURI\<close>, and the answer of the recipient to the inherited safe-assignment check
  (an external call whose outcome the registry does not control). The check is taken
  by its answer alone: what the recipient's code might do to the registry while it is
  asked (transfers and changes of ownership are inherited, and none of them is an
  operation of this development) is outside the model.
\<close>

record call =
  sender :: address
  uri :: string
  receiver_ok :: bool

text \<open>
  Modelled from the spec: the modifier \<open>onlyOwner\<close> of the library's Ownable, which is
  not part of the repository: the caller's identity must equal the registry's owner,
  otherwise the call fails with an Authorization error.
\<close>

definition onlyOwner :: "address \<Rightarrow> registry \<Rightarrow> error + unit" where
  "onlyOwner caller s = (if caller \<noteq> owner s then Inl Authorization else Inr ())"

text \<open>
  Modelled from the spec: the library's \<open>_safeMint\<close>, which is not part of the
  repository: an entry of \<open>tokens\<close> is created exactly once, the recipient must pass the
  safe-assignment check, and then \<open>tokens[tokenId] = to\<close> is recorded.
\<close>

definition safeMint :: "bool \<Rightarrow> address \<Rightarrow> uint256 \<Rightarrow> registry \<Rightarrow> error + registry" where
  "safeMint ok to tokenId s =
     (case tokens s tokenId of
        Some _ \<Rightarrow> Inl AlreadyAssigned
      | None \<Rightarrow>
          if ok then Inr (s\<lparr>tokens := (tokens s)(tokenId \<mapsto> to)\<rparr>)
          else Inl ReceiverRejected)"

text \<open>
  Modelled from the spec: the library's \<open>_setTokenURI\<close>, which is not part of the
  repository: it records \<open>tokenURIs[tokenId] = metadataPointer\<close>.
\<close>

definition setTokenURI :: "uint256 \<Rightarrow> string \<Rightarrow> registry \<Rightarrow> error + registry" where
  "setTokenURI tokenId u s = Inr (s\<lparr>tokenURIs := (tokenURIs s)(tokenId \<mapsto> u)\<rparr>)"

text \<open>
  The compiler's checked addition on \<open>uint256\<close> (pragma solidity \<open>^0.8.20\<close>, and
  \<open>^0.8.0\<close> in the older text of the tutorial): a sum that does not fit reverts.
\<close>

definition checked_add :: "uint256 \<Rightarrow> uint256 \<Rightarrow> error + uint256" where
  "checked_add a b =
     (if unat a + unat b < 2 ^ 256 then Inr (a + b) else Inl ArithmeticOverflow)"

text \<open>The constructor: \<open>tokenCounter = 0\<close>; Ownable records the deployer as owner.\<close>

definition constructor :: "address \<Rightarrow> registry" where
  "constructor deployer =
     \<lparr>owner = deployer, tokenCounter = 0, tokens = Map.empty, tokenURIs = Map.empty\<rparr>"

text \<open>\<open>createNFT\<close>, statement by statement.\<close>

definition createNFT :: "call \<Rightarrow> registry \<Rightarrow> error + (uint256 \<times> registry)" where
  "createNFT c s =
     (case onlyOwner (sender c) s of
        Inl e \<Rightarrow> Inl e
      | Inr _ \<Rightarrow>
          let newItemId = tokenCounter s in
          (case safeMint (receiver_ok c) (sender c) newItemId s of
             Inl e \<Rightarrow> Inl e
           | Inr s1 \<Rightarrow>
               (case setTokenURI newItemId (uri c) s1 of
                  Inl e \<Rightarrow> Inl e
                | Inr s2 \<Rightarrow>
                    (case checked_add (tokenCounter s2) 1 of
                       Inl e \<Rightarrow> Inl e
                     | Inr n \<Rightarrow> Inr (newItemId, s2\<lparr>tokenCounter := n\<rparr>)))))"

text \<open>
  Modelled from the spec: the inherited reads \<open>tokenURI\<close> (readMetadataPointer) and
  \<open>ownerOf\<close> (readOwnerOf) of the library, which are not part of the repository: the
  identifier must be a previously assigned one, otherwise the read fails with NotFound.
\<close>

definition tokenURI :: "registry \<Rightarrow> uint256 \<Rightarrow> error + string" where
  "tokenURI s tokenId =
     (case tokens s tokenId of
        None \<Rightarrow> Inl NotFound
      | Some _ \<Rightarrow> Inr (case tokenURIs s tokenId of None \<Rightarrow> [] | Some u \<Rightarrow> u))"

definition ownerOf :: "registry \<Rightarrow> uint256 \<Rightarrow> error + address" where
  "ownerOf s tokenId =
     (case tokens s tokenId of None \<Rightarrow> Inl NotFound | Some a \<Rightarrow> Inr a)"

text \<open>
  The operations a principal can invoke, and what each answers. A transaction that
  reverts leaves the storage as it was; the reads are views and never write.
\<close>

datatype operation =
    Create call
  | ReadOwnerOf uint256
  | ReadMetadataPointer uint256

datatype reply =
    Created uint256
  | Owner address
  | Pointer string
  | Failed error

fun transact :: "operation \<Rightarrow> registry \<Rightarrow> reply \<times> registry" where
  "transact (Create c) s =
     (case createNFT c s of
        Inl e \<Rightarrow> (Failed e, s)
      | Inr (newItemId, s') \<Rightarrow> (Created newItemId, s'))"
| "transact (ReadOwnerOf i) s =
     (case ownerOf s i of Inl e \<Rightarrow> (Failed e, s) | Inr a \<Rightarrow> (Owner a, s))"
| "transact (ReadMetadataPointer i) s =
     (case tokenURI s i of Inl e \<Rightarrow> (Failed e, s) | Inr u \<Rightarrow> (Pointer u, s))"

text \<open>A history: the operations in the order the network executes them.\<close>

fun run :: "operation list \<Rightarrow> registry \<Rightarrow> reply list \<times> registry" where
  "run [] s = ([], s)"
| "run (p # ps) s =
     (case transact p s of
        (r, s') \<Rightarrow> (case run ps s' of (rs, s'') \<Rightarrow> (r # rs, s'')))"

text \<open>The identifiers the successful creations of a history returned, in call order.\<close>

fun created :: "reply list \<Rightarrow> uint256 list" where
  "created [] = []"
| "created (Created i # rs) = i # created rs"
| "created (_ # rs) = created rs"

text \<open>
  The invariant of the specification's data model: the assigned identifiers are the ones
  below \<open>tokenCounter\<close>, each has a metadata pointer, and each is held by the owner.
\<close>

definition dense :: "registry \<Rightarrow> bool" where
  "dense s \<longleftrightarrow>
     dom (tokens s) = {i. i < tokenCounter s} \<and>
     dom (tokenURIs s) = {i. i < tokenCounter s} \<and>
     ran (tokens s) \<subseteq> {owner s}"

section \<open>The client scripts (scripts/deploy.js and scripts/mint.js)\<close>

text \<open>
  A script is one asynchronous function \<open>main\<close> and the handler
  \<^verbatim>\<open>main().catch((error) => { console.error(error); process.exitCode = 1; });\<close>
  Every awaited call of the toolkit either resolves or throws; what it does is given by
  the network the script runs against. The model records the effects of a run in order
  (its trace) and the exit code of the process, which is 0 unless it is set.
\<close>

type_synonym js_error = string

datatype effect =
    GetSigners                     \<comment> \<open>\<open>ethers.getSigners()\<close>\<close>
  | GetContractFactory string      \<comment> \<open>\<open>ethers.getContractFactory(name)\<close>\<close>
  | Deploy                         \<comment> \<open>\<open>NFTContract.deploy()\<close>: sends the creation transaction\<close>
  | GetContractAt string string    \<comment> \<open>\<open>ethers.getContractAt(name, address)\<close>\<close>
  | SendCreateNFT string           \<comment> \<open>\<open>NFTContract.createNFT(tokenURI)\<close>: sends the transaction\<close>
  | TxWait                         \<comment> \<open>\<open>tx.wait()\<close>: waits until the network has confirmed\<close>
  | ConsoleLog "string list"       \<comment> \<open>\<open>console.log(...)\<close> with its arguments\<close>
  | ConsoleError js_error          \<comment> \<open>\<open>console.error(error)\<close>\<close>

record network =
  signers :: "js_error + string list"   \<comment> \<open>the accounts' addresses, or the error thrown\<close>
  factory :: "js_error + unit"
  deployment :: "js_error + string"     \<comment> \<open>the address of the contract whose creation was sent\<close>
  contractAt :: "js_error + unit"
  submission :: "js_error + unit"       \<comment> \<open>sending the \<open>createNFT\<close> transaction\<close>
  confirmation :: "js_error + unit"     \<comment> \<open>whether the network confirms the pending transaction\<close>

record process =
  trace :: "effect list"
  exitCode :: nat

text \<open>
  \<open>main\<close> of scripts/deploy.js. The pattern \<open>const [deployer] = ...\<close> leaves
  \<open>deployer\<close> undefined for an empty array, and \<open>deployer.address\<close> throws then.
\<close>

definition deploy_main :: "network \<Rightarrow> effect list \<times> js_error option" where
  "deploy_main n =
     (case signers n of
        Inl e \<Rightarrow> ([GetSigners], Some e)
      | Inr [] \<Rightarrow> ([GetSigners], Some ''TypeError: Cannot read properties of undefined (reading 'address')'')
      | Inr (deployer # _) \<Rightarrow>
          (case factory n of
             Inl e \<Rightarrow>
               ([GetSigners, ConsoleLog [''Deploying contracts with the account:'', deployer],
                 GetContractFactory ''MorphNFT''], Some e)
           | Inr _ \<Rightarrow>
               (case deployment n of
                  Inl e \<Rightarrow>
                    ([GetSigners, ConsoleLog [''Deploying contracts with the account:'', deployer],
                      GetContractFactory ''MorphNFT'', Deploy], Some e)
                | Inr target \<Rightarrow>
                    ([GetSigners, ConsoleLog [''Deploying contracts with the account:'', deployer],
                      GetContractFactory ''MorphNFT'', Deploy,
                      ConsoleLog [''NFT Contract deployed to:'', target]], None))))"

text \<open>\<open>main\<close> of scripts/mint.js; \<open>deployer\<close> is bound and never used.\<close>

definition nftAddress :: string where
  "nftAddress = ''0x77778EBa8Ed0f023B1f62C7dFBf0D5DE210B0dd3''"

definition mint_tokenURI :: string where
  "mint_tokenURI = ''https://your-nft-metadata-uri.com/metadata.json''"

definition mint_main :: "network \<Rightarrow> effect list \<times> js_error option" where
  "mint_main n =
     (case signers n of
        Inl e \<Rightarrow> ([GetSigners], Some e)
      | Inr _ \<Rightarrow>
          (case contractAt n of
             Inl e \<Rightarrow> ([GetSigners, GetContractAt ''MorphNFT'' nftAddress], Some e)
           | Inr _ \<Rightarrow>
               (case submission n of
                  Inl e \<Rightarrow>
                    ([GetSigners, GetContractAt ''MorphNFT'' nftAddress,
                      SendCreateNFT mint_tokenURI], Some e)
                | Inr _ \<Rightarrow>
                    (case confirmation n of
                       Inl e \<Rightarrow>
                         ([GetSigners, GetContractAt ''MorphNFT'' nftAddress,
                           SendCreateNFT mint_tokenURI, TxWait], Some e)
                     | Inr _ \<Rightarrow>
                         ([GetSigners, GetContractAt ''MorphNFT'' nftAddress,
                           SendCreateNFT mint_tokenURI, TxWait,
                           ConsoleLog [''NFT minted with URI:'', mint_tokenURI]], None)))))"

text \<open>The handler at the top level of both scripts.\<close>

definition top_level :: "effect list \<times> js_error option \<Rightarrow> process" where
  "top_level r =
     (case r of
        (t, None) \<Rightarrow> \<lparr>trace = t, exitCode = 0\<rparr>
      | (t, Some error) \<Rightarrow> \<lparr>trace = t @ [ConsoleError error], exitCode = 1\<rparr>)"

definition deploy_script :: "network \<Rightarrow> process" where
  "deploy_script n = top_level (deploy_main n)"

definition mint_script :: "network \<Rightarrow> process" where
  "mint_script n = top_level (mint_main n)"

text \<open>The errors a run printed, in order.\<close>

fun printed_errors :: "effect list \<Rightarrow> js_error list" where
  "printed_errors [] = []"
| "printed_errors (ConsoleError e # t) = e # printed_errors t"
| "printed_errors (_ # t) = printed_errors t"

section \<open>The viewer (morph-nft-frontend/src/App.js)\<close>

text \<open>
  The component keeps one state variable, \<open>nftURI\<close>, initially the empty string, and
  renders a heading, a button whose click handler is \<open>getNFTData\<close>, and a paragraph
  when \<open>nftURI\<close> is not empty. A contract handle is bound to a runner: a provider (the
  handle can only read) or a signer (the handle can also send transactions).
\<close>

record app =
  nftURI :: string

datatype runner = ProviderRunner | SignerRunner string

record handle =
  target :: string
  runner :: runner

datatype view_effect =
    NewBrowserProvider       \<comment> \<open>\<open>new ethers.BrowserProvider(window.ethereum)\<close>\<close>
  | GetSigner                \<comment> \<open>\<open>provider.getSigner()\<close>\<close>
  | NewContract handle       \<comment> \<open>\<open>new ethers.Contract(address, abi, runner)\<close>\<close>
  | CallTokenURI handle nat  \<comment> \<open>\<open>contract.tokenURI(id)\<close>\<close>
  | SetNFTURI string         \<comment> \<open>\<open>setNFTURI(value)\<close>\<close>

record wallet =
  provider :: "js_error + unit"    \<comment> \<open>constructing the provider on \<open>window.ethereum\<close>\<close>
  getSigner :: "js_error + string" \<comment> \<open>the account the wallet grants, or the rejection\<close>
  read :: "js_error + string"      \<comment> \<open>the answer of the registry to \<open>tokenURI(0)\<close>\<close>

datatype element = H1 string | Button string | P string

definition contractAddress :: string where
  "contractAddress = ''0x77778EBa8Ed0f023B1f62C7dFBf0D5DE210B0dd3''"

text \<open>Loading the component: \<open>useState("")\<close>, and no effect.\<close>

definition mount :: "view_effect list \<times> app" where
  "mount = ([], \<lparr>nftURI = []\<rparr>)"

definition getNFTData :: "wallet \<Rightarrow> app \<Rightarrow> view_effect list \<times> js_error option \<times> app" where
  "getNFTData w st =
     (case provider w of
        Inl e \<Rightarrow> ([NewBrowserProvider], Some e, st)
      | Inr _ \<Rightarrow>
          (case getSigner w of
             Inl e \<Rightarrow> ([NewBrowserProvider, GetSigner], Some e, st)
           | Inr signer \<Rightarrow>
               let contract = \<lparr>target = contractAddress, runner = SignerRunner signer\<rparr> in
               (case read w of
                  Inl e \<Rightarrow>
                    ([NewBrowserProvider, GetSigner, NewContract contract,
                      CallTokenURI contract 0], Some e, st)
                | Inr tokenURI' \<Rightarrow>
                    ([NewBrowserProvider, GetSigner, NewContract contract,
                      CallTokenURI contract 0, SetNFTURI tokenURI'], None,
                     st\<lparr>nftURI := tokenURI'\<rparr>))))"

definition render :: "app \<Rightarrow> element list" where
  "render st =
     [H1 ''My Morph L2 NFT Collection'', Button ''Fetch NFT Data''] @
     (if nftURI st \<noteq> [] then [P (''NFT URI: '' @ nftURI st)] else [])"

text \<open>The handles a run constructed, and whether a handle can only read.\<close>

fun handles :: "view_effect list \<Rightarrow> handle list" where
  "handles [] = []"
| "handles (NewContract h # t) = h # handles t"
| "handles (_ # t) = handles t"

definition read_only :: "handle \<Rightarrow> bool" where
  "read_only h \<longleftrightarrow> runner h = ProviderRunner"

section \<open>Properties of the registry\<close>

subsection \<open>What one call of \<open>createNFT\<close> does\<close>

lemma createNFT_Inr_iff:
  "createNFT c s = Inr (i, s') \<longleftrightarrow>
     sender c = owner s \<and> i = tokenCounter s \<and> tokens s i = None \<and> receiver_ok c \<and>
     unat (tokenCounter s) + 1 < 2 ^ 256 \<and>
     s' = s\<lparr>tokens := (tokens s)(i \<mapsto> sender c),
            tokenURIs := (tokenURIs s)(i \<mapsto> uri c),
            tokenCounter := tokenCounter s + 1\<rparr>"
  by (auto simp: createNFT_def onlyOwner_def safeMint_def setTokenURI_def checked_add_def
      Let_def split: option.splits if_splits)

lemma unat_succ: "unat (n :: uint256) + 1 < 2 ^ 256 \<Longrightarrow> unat (n + 1) = unat n + 1"
  by (simp add: unat_word_ariths)

lemma less_succ:
  "unat (n :: uint256) + 1 < 2 ^ 256 \<Longrightarrow> i < n + 1 \<longleftrightarrow> i < n \<or> i = n"
  by (auto simp: word_less_nat_alt unat_succ word_unat_eq_iff)

lemma unat_max: "unat (- 1 :: uint256) = 2 ^ 256 - 1"
  by (simp add: unsigned_minus_1_eq_mask mask_eq_exp_minus_1)

subsection \<open>The invariant\<close>

lemma dense_constructor: "dense (constructor d)"
  by (simp add: dense_def constructor_def)

lemma dense_create: "dense s \<Longrightarrow> createNFT c s = Inr (i, s') \<Longrightarrow> dense s'"
  unfolding createNFT_Inr_iff dense_def
  by (auto simp: less_succ ran_def)

lemma transact_dense: "dense s \<Longrightarrow> transact p s = (r, s') \<Longrightarrow> dense s'"
  by (cases p) (auto split: sum.splits dest: dense_create)

lemma run_dense: "dense s \<Longrightarrow> run ps s = (rs, s') \<Longrightarrow> dense s'"
proof (induction ps arbitrary: s rs)
  case Nil
  then show ?case by simp
next
  case (Cons p ps)
  then show ?case by (auto split: prod.splits dest: transact_dense)
qed

subsection \<open>The counter and the identifiers handed out\<close>

lemma transact_counter:
  "transact p s = (r, s') \<Longrightarrow>
     map unat (created [r]) = [unat (tokenCounter s) ..< unat (tokenCounter s')] \<and>
     unat (tokenCounter s) \<le> unat (tokenCounter s') \<and> owner s' = owner s"
  by (cases p) (auto simp: createNFT_Inr_iff unat_succ split: sum.splits)

lemma created_Cons: "created (r # rs) = created [r] @ created rs"
  by (cases r) auto

lemma run_counter:
  "run ps s = (rs, s') \<Longrightarrow>
     map unat (created rs) = [unat (tokenCounter s) ..< unat (tokenCounter s')] \<and>
     unat (tokenCounter s) \<le> unat (tokenCounter s') \<and> owner s' = owner s"
proof (induction ps arbitrary: s rs s')
  case Nil
  then show ?case by simp
next
  case (Cons p ps)
  obtain r s1 where t: "transact p s = (r, s1)" by (cases "transact p s")
  obtain rs1 s2 where u: "run ps s1 = (rs1, s2)" by (cases "run ps s1")
  from Cons.prems t u have e: "rs = r # rs1" "s' = s2" by auto
  note a = transact_counter [OF t] and b = Cons.IH [OF u]
  have "map unat (created rs) = map unat (created [r]) @ map unat (created rs1)"
    unfolding e by (subst created_Cons) simp
  also have "\<dots> = [unat (tokenCounter s) ..< unat (tokenCounter s1)] @
      [unat (tokenCounter s1) ..< unat (tokenCounter s2)]"
    using a b by simp
  also have "\<dots> = [unat (tokenCounter s) ..< unat (tokenCounter s2)]"
    using a b by (metis le_Suc_ex upt_add_eq_append)
  finally show ?case using a b e by simp
qed

lemma run_created_fresh:
  assumes "run ps (constructor d) = (rs, s)"
  shows "map unat (created rs) = [0 ..< length (created rs)]"
    and "unat (tokenCounter s) = length (created rs)"
    and "distinct (created rs)"
proof -
  from run_counter [OF assms] have m: "map unat (created rs) = [0 ..< unat (tokenCounter s)]"
    by (simp add: constructor_def)
  then have "length (map unat (created rs)) = length [0 ..< unat (tokenCounter s)]" by simp
  then show n: "unat (tokenCounter s) = length (created rs)" by simp
  from m n show "map unat (created rs) = [0 ..< length (created rs)]" by simp
  from m have "distinct (map unat (created rs))" by simp
  then show "distinct (created rs)" by (simp add: distinct_map)
qed

subsection \<open>Entries are never overwritten\<close>

lemma transact_keeps:
  "transact p s = (r, s') \<Longrightarrow> tokens s i = Some a \<Longrightarrow>
     tokens s' i = Some a \<and> tokenURIs s' i = tokenURIs s i"
  by (cases p) (auto simp: createNFT_Inr_iff split: sum.splits)

lemma run_keeps:
  "run ps s = (rs, s') \<Longrightarrow> tokens s i = Some a \<Longrightarrow>
     tokens s' i = Some a \<and> tokenURIs s' i = tokenURIs s i"
proof (induction ps arbitrary: s rs s')
  case Nil
  then show ?case by simp
next
  case (Cons p ps)
  obtain r s1 where t: "transact p s = (r, s1)" by (cases "transact p s")
  obtain rs1 s2 where u: "run ps s1 = (rs1, s2)" by (cases "run ps s1")
  from Cons.prems t u have e: "s' = s2" by auto
  from transact_keeps [OF t Cons.prems(2)]
  have k: "tokens s1 i = Some a" "tokenURIs s1 i = tokenURIs s i" by simp_all
  from Cons.IH [OF u k(1)] k e show ?case by simp
qed

lemma unat_image_below:
  "unat ` {i :: uint256. i < n} = {0 ..< unat n}"
proof (rule set_eqI)
  fix k
  show "k \<in> unat ` {i. i < n} \<longleftrightarrow> k \<in> {0 ..< unat n}"
  proof
    assume "k \<in> unat ` {i. i < n}"
    then show "k \<in> {0 ..< unat n}" by (auto simp: word_less_nat_alt)
  next
    assume k: "k \<in> {0 ..< unat n}"
    have "unat n < 2 ^ LENGTH(256)" by (rule unsigned_less)
    with k have "k < 2 ^ 256" by simp
    then have u: "unat (of_nat k :: uint256) = k" by (simp add: unat_of_nat)
    with k have "(of_nat k :: uint256) < n" by (simp add: word_less_nat_alt)
    with u show "k \<in> unat ` {i. i < n}"
      by (metis (mono_tags, lifting) image_eqI mem_Collect_eq)
  qed
qed

subsection \<open>The claims about the registry\<close>

text \<open>
  C1. From a freshly deployed registry, the identifiers that the successful calls of
  \<open>createNFT\<close> return are 0, 1, 2, ... in call order, without a gap and without a
  repeat, whatever failed calls and reads lie between them. Each call is all or nothing:
  either it fails and the storage is as before, or it returns \<open>tokenCounter\<close>, records
  the caller as the owner of that identifier, records the metadata pointer for it and
  increments \<open>tokenCounter\<close> by exactly 1, changing nothing else.
\<close>

theorem createNFT_sequential_ids:
  "(run ps (constructor d) = (rs, s) \<longrightarrow>
      map unat (created rs) = [0 ..< length (created rs)] \<and> distinct (created rs)) \<and>
   (case createNFT c s0 of
      Inl e \<Rightarrow> transact (Create c) s0 = (Failed e, s0)
    | Inr (i, s1) \<Rightarrow>
        transact (Create c) s0 = (Created i, s1) \<and>
        i = tokenCounter s0 \<and>
        s1 = s0\<lparr>tokens := (tokens s0)(i \<mapsto> sender c),
                 tokenURIs := (tokenURIs s0)(i \<mapsto> uri c),
                 tokenCounter := tokenCounter s0 + 1\<rparr> \<and>
        unat (tokenCounter s1) = unat (tokenCounter s0) + 1)"
proof (intro conjI impI)
  assume a: "run ps (constructor d) = (rs, s)"
  show "map unat (created rs) = [0 ..< length (created rs)]" by (rule run_created_fresh(1) [OF a])
  show "distinct (created rs)" by (rule run_created_fresh(3) [OF a])
next
  show "case createNFT c s0 of
      Inl e \<Rightarrow> transact (Create c) s0 = (Failed e, s0)
    | Inr (i, s1) \<Rightarrow>
        transact (Create c) s0 = (Created i, s1) \<and>
        i = tokenCounter s0 \<and>
        s1 = s0\<lparr>tokens := (tokens s0)(i \<mapsto> sender c),
                 tokenURIs := (tokenURIs s0)(i \<mapsto> uri c),
                 tokenCounter := tokenCounter s0 + 1\<rparr> \<and>
        unat (tokenCounter s1) = unat (tokenCounter s0) + 1"
  proof (cases "createNFT c s0")
    case (Inl e)
    then show ?thesis by simp
  next
    case (Inr x)
    obtain i s1 where x: "x = (i, s1)" by (cases x)
    from Inr x have k: "createNFT c s0 = Inr (i, s1)" by simp
    then have f: "i = tokenCounter s0" "unat (tokenCounter s0) + 1 < 2 ^ 256"
      "s1 = s0\<lparr>tokens := (tokens s0)(i \<mapsto> sender c),
               tokenURIs := (tokenURIs s0)(i \<mapsto> uri c),
               tokenCounter := tokenCounter s0 + 1\<rparr>"
      by (simp_all add: createNFT_Inr_iff)
    from f(2) have "unat (tokenCounter s0 + 1) = unat (tokenCounter s0) + 1" by (rule unat_succ)
    with f(3) have g: "unat (tokenCounter s1) = unat (tokenCounter s0) + 1" by simp
    have t: "transact (Create c) s0 = (Created i, s1)" by (simp add: k)
    from t f(1) f(3) g show ?thesis unfolding k by simp
  qed
qed

theorem createNFT_sequential_ids_witness:
  "run [Create \<lparr>sender = 1, uri = ''https://x/1.json'', receiver_ok = True\<rparr>,
        Create \<lparr>sender = 2, uri = ''https://x/2.json'', receiver_ok = True\<rparr>,
        Create \<lparr>sender = 1, uri = ''https://x/3.json'', receiver_ok = True\<rparr>]
       (constructor 1) =
     ([Created 0, Failed Authorization, Created 1],
      \<lparr>owner = 1, tokenCounter = 2,
       tokens = [0 \<mapsto> 1, 1 \<mapsto> 1],
       tokenURIs = [0 \<mapsto> ''https://x/1.json'', 1 \<mapsto> ''https://x/3.json'']\<rparr>) \<and>
   map unat (created [Created 0, Failed Authorization, Created 1]) = [0, 1] \<and>
   distinct (created [Created 0, Failed Authorization, Created 1]) \<and>
   transact (Create \<lparr>sender = 1, uri = ''https://x/1.json'', receiver_ok = True\<rparr>)
       (constructor 1) =
     (Created 0,
      \<lparr>owner = 1, tokenCounter = 1, tokens = [0 \<mapsto> 1],
       tokenURIs = [0 \<mapsto> ''https://x/1.json'']\<rparr>)"
  using createNFT_sequential_ids
    [of "[Create \<lparr>sender = 1, uri = ''https://x/1.json'', receiver_ok = True\<rparr>,
          Create \<lparr>sender = 2, uri = ''https://x/2.json'', receiver_ok = True\<rparr>,
          Create \<lparr>sender = 1, uri = ''https://x/3.json'', receiver_ok = True\<rparr>]"
        1 "[Created 0, Failed Authorization, Created 1]"
        "\<lparr>owner = 1, tokenCounter = 2,
         tokens = [0 \<mapsto> 1, 1 \<mapsto> 1],
         tokenURIs = [0 \<mapsto> ''https://x/1.json'', 1 \<mapsto> ''https://x/3.json'']\<rparr>"
        "\<lparr>sender = 1, uri = ''https://x/1.json'', receiver_ok = True\<rparr>"
        "constructor 1"]
  by (simp add: constructor_def createNFT_def onlyOwner_def safeMint_def setTokenURI_def
      checked_add_def)

text \<open>
  C2. In every state of the registry, a call of \<open>createNFT\<close> by a caller other than
  the owner fails with an Authorization error, whatever the metadata pointer, and the
  whole storage is as before: the counter, every recorded owner and every recorded
  metadata pointer, so a read after the failed call answers what it answered before.
\<close>

theorem createNFT_not_owner:
  "sender c \<noteq> owner s \<Longrightarrow>
     createNFT c s = Inl Authorization \<and>
     transact (Create c) s = (Failed Authorization, s) \<and>
     snd (transact q (snd (transact (Create c) s))) = snd (transact q s) \<and>
     fst (transact q (snd (transact (Create c) s))) = fst (transact q s)"
  by (simp add: createNFT_def onlyOwner_def)

theorem createNFT_not_owner_witness:
  "sender \<lparr>sender = 2, uri = ''https://x/2.json'', receiver_ok = True\<rparr> \<noteq>
     owner \<lparr>owner = 1, tokenCounter = 1, tokens = [0 \<mapsto> 1],
            tokenURIs = [0 \<mapsto> ''https://x/1.json'']\<rparr> \<and>
   transact (Create \<lparr>sender = 2, uri = ''https://x/2.json'', receiver_ok = True\<rparr>)
     \<lparr>owner = 1, tokenCounter = 1, tokens = [0 \<mapsto> 1],
      tokenURIs = [0 \<mapsto> ''https://x/1.json'']\<rparr> =
     (Failed Authorization,
      \<lparr>owner = 1, tokenCounter = 1, tokens = [0 \<mapsto> 1],
       tokenURIs = [0 \<mapsto> ''https://x/1.json'']\<rparr>) \<and>
   fst (transact (ReadMetadataPointer 0)
     (snd (transact (Create \<lparr>sender = 2, uri = ''https://x/2.json'', receiver_ok = True\<rparr>)
       \<lparr>owner = 1, tokenCounter = 1, tokens = [0 \<mapsto> 1],
        tokenURIs = [0 \<mapsto> ''https://x/1.json'']\<rparr>))) =
     Pointer ''https://x/1.json''"
  using createNFT_not_owner
    [of "\<lparr>sender = 2, uri = ''https://x/2.json'', receiver_ok = True\<rparr>"
        "\<lparr>owner = 1, tokenCounter = 1, tokens = [0 \<mapsto> 1],
         tokenURIs = [0 \<mapsto> ''https://x/1.json'']\<rparr>"
        "ReadMetadataPointer 0"]
  by (simp add: tokenURI_def)

text \<open>
  C3. After a call of \<open>createNFT\<close> with metadata pointer \<open>uri\<close> has returned the
  identifier \<open>i\<close>, and after any further history of creations, failed creations and
  reads, \<open>ownerOf i\<close> answers the principal that made the call and \<open>tokenURI i\<close>
  answers \<open>uri\<close>.
\<close>

theorem reads_after_create:
  "transact (Create c) s = (Created i, s') \<Longrightarrow> run ps s' = (rs, s'') \<Longrightarrow>
     transact (ReadOwnerOf i) s'' = (Owner (sender c), s'') \<and>
     transact (ReadMetadataPointer i) s'' = (Pointer (uri c), s'')"
proof -
  assume a: "transact (Create c) s = (Created i, s')" and b: "run ps s' = (rs, s'')"
  from a have "createNFT c s = Inr (i, s')" by (auto split: sum.splits)
  then have t: "tokens s' i = Some (sender c)" and u: "tokenURIs s' i = Some (uri c)"
    by (simp_all add: createNFT_Inr_iff)
  from run_keeps [OF b t] u show ?thesis
    by (simp add: ownerOf_def tokenURI_def)
qed

theorem reads_after_create_witness:
  "transact (Create \<lparr>sender = 1, uri = ''https://x/1.json'', receiver_ok = True\<rparr>)
       (constructor 1) =
     (Created 0,
      \<lparr>owner = 1, tokenCounter = 1, tokens = [0 \<mapsto> 1],
       tokenURIs = [0 \<mapsto> ''https://x/1.json'']\<rparr>) \<and>
   run [Create \<lparr>sender = 2, uri = ''https://x/2.json'', receiver_ok = True\<rparr>,
        ReadOwnerOf 7,
        Create \<lparr>sender = 1, uri = ''https://x/3.json'', receiver_ok = True\<rparr>]
       \<lparr>owner = 1, tokenCounter = 1, tokens = [0 \<mapsto> 1],
        tokenURIs = [0 \<mapsto> ''https://x/1.json'']\<rparr> =
     ([Failed Authorization, Failed NotFound, Created 1],
      \<lparr>owner = 1, tokenCounter = 2,
       tokens = [0 \<mapsto> 1, 1 \<mapsto> 1],
       tokenURIs = [0 \<mapsto> ''https://x/1.json'', 1 \<mapsto> ''https://x/3.json'']\<rparr>) \<and>
   fst (transact (ReadOwnerOf 0)
     \<lparr>owner = 1, tokenCounter = 2,
      tokens = [0 \<mapsto> 1, 1 \<mapsto> 1],
      tokenURIs = [0 \<mapsto> ''https://x/1.json'', 1 \<mapsto> ''https://x/3.json'']\<rparr>) = Owner 1 \<and>
   fst (transact (ReadMetadataPointer 0)
     \<lparr>owner = 1, tokenCounter = 2,
      tokens = [0 \<mapsto> 1, 1 \<mapsto> 1],
      tokenURIs = [0 \<mapsto> ''https://x/1.json'', 1 \<mapsto> ''https://x/3.json'']\<rparr>) =
     Pointer ''https://x/1.json''"
  using reads_after_create
    [of "\<lparr>sender = 1, uri = ''https://x/1.json'', receiver_ok = True\<rparr>"
        "constructor 1" 0
        "\<lparr>owner = 1, tokenCounter = 1, tokens = [0 \<mapsto> 1],
         tokenURIs = [0 \<mapsto> ''https://x/1.json'']\<rparr>"
        "[Create \<lparr>sender = 2, uri = ''https://x/2.json'', receiver_ok = True\<rparr>,
          ReadOwnerOf 7,
          Create \<lparr>sender = 1, uri = ''https://x/3.json'', receiver_ok = True\<rparr>]"
        "[Failed Authorization, Failed NotFound, Created 1]"
        "\<lparr>owner = 1, tokenCounter = 2,
         tokens = [0 \<mapsto> 1, 1 \<mapsto> 1],
         tokenURIs = [0 \<mapsto> ''https://x/1.json'', 1 \<mapsto> ''https://x/3.json'']\<rparr>"]
  by (simp add: constructor_def createNFT_def onlyOwner_def safeMint_def setTokenURI_def
      checked_add_def ownerOf_def tokenURI_def)

text \<open>
  C4. In every state that a history of operations reaches from deployment, every
  identifier that has an owner has a metadata pointer and is below \<open>tokenCounter\<close>;
  \<open>tokenCounter\<close> is the number of successful creations; and the assigned identifiers
  are exactly 0, ..., \<open>tokenCounter - 1\<close>.
\<close>

theorem registry_invariant:
  "run ps (constructor d) = (rs, s) \<Longrightarrow>
     dom (tokens s) \<subseteq> dom (tokenURIs s) \<and>
     dom (tokens s) = {i. i < tokenCounter s} \<and>
     unat (tokenCounter s) = length (created rs) \<and>
     unat ` dom (tokens s) = {0 ..< unat (tokenCounter s)}"
proof -
  assume a: "run ps (constructor d) = (rs, s)"
  from run_dense [OF dense_constructor a]
  have d: "dom (tokens s) = {i. i < tokenCounter s}"
    "dom (tokenURIs s) = {i. i < tokenCounter s}"
    by (simp_all add: dense_def)
  from d run_created_fresh(2) [OF a] unat_image_below [of "tokenCounter s"]
  show ?thesis by simp
qed

theorem registry_invariant_witness:
  "run [Create \<lparr>sender = 1, uri = ''https://x/1.json'', receiver_ok = True\<rparr>,
        Create \<lparr>sender = 2, uri = ''https://x/2.json'', receiver_ok = True\<rparr>,
        Create \<lparr>sender = 1, uri = ''https://x/3.json'', receiver_ok = False\<rparr>,
        Create \<lparr>sender = 1, uri = ''https://x/4.json'', receiver_ok = True\<rparr>]
       (constructor 1) =
     ([Created 0, Failed Authorization, Failed ReceiverRejected, Created 1],
      \<lparr>owner = 1, tokenCounter = 2,
       tokens = [0 \<mapsto> 1, 1 \<mapsto> 1],
       tokenURIs = [0 \<mapsto> ''https://x/1.json'', 1 \<mapsto> ''https://x/4.json'']\<rparr>) \<and>
   dom [0 \<mapsto> 1 :: address, (1 :: uint256) \<mapsto> 1] = {i. i < 2} \<and>
   unat (2 :: uint256) =
     length (created [Created 0, Failed Authorization, Failed ReceiverRejected, Created 1])"
  using registry_invariant
    [of "[Create \<lparr>sender = 1, uri = ''https://x/1.json'', receiver_ok = True\<rparr>,
          Create \<lparr>sender = 2, uri = ''https://x/2.json'', receiver_ok = True\<rparr>,
          Create \<lparr>sender = 1, uri = ''https://x/3.json'', receiver_ok = False\<rparr>,
          Create \<lparr>sender = 1, uri = ''https://x/4.json'', receiver_ok = True\<rparr>]"
        1 "[Created 0, Failed Authorization, Failed ReceiverRejected, Created 1]"
        "\<lparr>owner = 1, tokenCounter = 2,
         tokens = [0 \<mapsto> 1, 1 \<mapsto> 1],
         tokenURIs = [0 \<mapsto> ''https://x/1.json'', 1 \<mapsto> ''https://x/4.json'']\<rparr>"]
  by (simp add: constructor_def createNFT_def onlyOwner_def safeMint_def setTokenURI_def
      checked_add_def)

text \<open>
  C5. In every state that a history of operations reaches from deployment, and for
  every identifier that is not below \<open>tokenCounter\<close> (the identifiers no successful
  creation has assigned), \<open>tokenURI\<close> and \<open>ownerOf\<close> both fail with NotFound and
  leave the storage as it is.
\<close>

theorem reads_not_found:
  "run ps (constructor d) = (rs, s) \<Longrightarrow> tokenCounter s \<le> i \<Longrightarrow>
     tokenURI s i = Inl NotFound \<and> ownerOf s i = Inl NotFound \<and>
     transact (ReadMetadataPointer i) s = (Failed NotFound, s) \<and>
     transact (ReadOwnerOf i) s = (Failed NotFound, s)"
proof -
  assume a: "run ps (constructor d) = (rs, s)" and b: "tokenCounter s \<le> i"
  from run_dense [OF dense_constructor a] have "dom (tokens s) = {i. i < tokenCounter s}"
    by (simp add: dense_def)
  with b have "i \<notin> dom (tokens s)" by (simp add: not_less)
  then have "tokens s i = None" by (simp add: domIff)
  then show ?thesis by (simp add: tokenURI_def ownerOf_def)
qed

theorem reads_not_found_witness:
  "run [Create \<lparr>sender = 1, uri = ''https://x/1.json'', receiver_ok = True\<rparr>]
       (constructor 1) =
     ([Created 0],
      \<lparr>owner = 1, tokenCounter = 1, tokens = [0 \<mapsto> 1],
       tokenURIs = [0 \<mapsto> ''https://x/1.json'']\<rparr>) \<and>
   tokenCounter \<lparr>owner = 1, tokenCounter = 1, tokens = [0 \<mapsto> 1],
       tokenURIs = [0 \<mapsto> ''https://x/1.json'']\<rparr> \<le> 1 \<and>
   tokenURI \<lparr>owner = 1, tokenCounter = 1, tokens = [0 \<mapsto> 1],
       tokenURIs = [0 \<mapsto> ''https://x/1.json'']\<rparr> 1 = Inl NotFound \<and>
   ownerOf \<lparr>owner = 1, tokenCounter = 1, tokens = [0 \<mapsto> 1],
       tokenURIs = [0 \<mapsto> ''https://x/1.json'']\<rparr> 1 = Inl NotFound"
  using reads_not_found
    [of "[Create \<lparr>sender = 1, uri = ''https://x/1.json'', receiver_ok = True\<rparr>]"
        1 "[Created 0]"
        "\<lparr>owner = 1, tokenCounter = 1, tokens = [0 \<mapsto> 1],
         tokenURIs = [0 \<mapsto> ''https://x/1.json'']\<rparr>" 1]
  by (simp add: constructor_def createNFT_def onlyOwner_def safeMint_def setTokenURI_def
      checked_add_def)

text \<open>
  C9. \<open>createNFT\<close> has no recipient parameter: a successful call records its caller as
  the owner of the new identifier, and the caller is the registry's owner. So in every
  state that a history of operations reaches from deployment, every assigned identifier
  is held by the registry's owner, who is the deployer.
\<close>

theorem minted_to_owner:
  "(createNFT c s0 = Inr (i, s1) \<longrightarrow>
      tokens s1 i = Some (sender c) \<and> sender c = owner s0 \<and> owner s1 = owner s0) \<and>
   (run ps (constructor d) = (rs, s) \<and> tokens s j = Some a \<longrightarrow> a = owner s \<and> owner s = d)"
proof (intro conjI impI)
  assume "createNFT c s0 = Inr (i, s1)"
  then show "tokens s1 i = Some (sender c)" "sender c = owner s0" "owner s1 = owner s0"
    by (simp_all add: createNFT_Inr_iff)
next
  assume "run ps (constructor d) = (rs, s) \<and> tokens s j = Some a"
  then have a: "run ps (constructor d) = (rs, s)" and b: "tokens s j = Some a" by simp_all
  from run_dense [OF dense_constructor a] have "ran (tokens s) \<subseteq> {owner s}"
    by (simp add: dense_def)
  with b show "a = owner s" by (auto simp: ran_def)
  from run_counter [OF a] show "owner s = d" by (simp add: constructor_def)
qed

theorem minted_to_owner_witness:
  "createNFT \<lparr>sender = 1, uri = ''https://x/1.json'', receiver_ok = True\<rparr> (constructor 1) =
     Inr (0, \<lparr>owner = 1, tokenCounter = 1, tokens = [0 \<mapsto> 1],
              tokenURIs = [0 \<mapsto> ''https://x/1.json'']\<rparr>) \<and>
   run [Create \<lparr>sender = 1, uri = ''https://x/1.json'', receiver_ok = True\<rparr>,
        Create \<lparr>sender = 2, uri = ''https://x/2.json'', receiver_ok = True\<rparr>,
        Create \<lparr>sender = 1, uri = ''https://x/3.json'', receiver_ok = True\<rparr>]
       (constructor 1) =
     ([Created 0, Failed Authorization, Created 1],
      \<lparr>owner = 1, tokenCounter = 2,
       tokens = [0 \<mapsto> 1, 1 \<mapsto> 1],
       tokenURIs = [0 \<mapsto> ''https://x/1.json'', 1 \<mapsto> ''https://x/3.json'']\<rparr>) \<and>
   tokens \<lparr>owner = 1, tokenCounter = 2,
      tokens = [0 \<mapsto> 1, 1 \<mapsto> 1],
      tokenURIs = [0 \<mapsto> ''https://x/1.json'', 1 \<mapsto> ''https://x/3.json'']\<rparr> 1 = Some 1 \<and>
   owner \<lparr>owner = 1, tokenCounter = 2,
      tokens = [0 \<mapsto> 1, 1 \<mapsto> 1],
      tokenURIs = [0 \<mapsto> ''https://x/1.json'', 1 \<mapsto> ''https://x/3.json'']\<rparr> = 1"
  using minted_to_owner
    [of "\<lparr>sender = 1, uri = ''https://x/1.json'', receiver_ok = True\<rparr>" "constructor 1" 0
        "\<lparr>owner = 1, tokenCounter = 1, tokens = [0 \<mapsto> 1],
         tokenURIs = [0 \<mapsto> ''https://x/1.json'']\<rparr>"
        "[Create \<lparr>sender = 1, uri = ''https://x/1.json'', receiver_ok = True\<rparr>,
          Create \<lparr>sender = 2, uri = ''https://x/2.json'', receiver_ok = True\<rparr>,
          Create \<lparr>sender = 1, uri = ''https://x/3.json'', receiver_ok = True\<rparr>]"
        1 "[Created 0, Failed Authorization, Created 1]"
        "\<lparr>owner = 1, tokenCounter = 2,
         tokens = [0 \<mapsto> 1, 1 \<mapsto> 1],
         tokenURIs = [0 \<mapsto> ''https://x/1.json'', 1 \<mapsto> ''https://x/3.json'']\<rparr>"
        1 1]
  by (simp add: constructor_def createNFT_def onlyOwner_def safeMint_def setTokenURI_def
      checked_add_def)

text \<open>
  C10. \<open>tokenCounter\<close> is a 256-bit unsigned integer and its increment is checked.
  When \<open>tokenCounter\<close> is \<open>2 ^ 256 - 1\<close>, every call of \<open>createNFT\<close> reverts and the
  storage is as before; a call that passes the owner check and the minting reverts in
  the increment, where unchecked arithmetic would have wrapped the counter to 0. So no
  history from deployment hands out an identifier twice.
\<close>

theorem counter_never_wraps:
  "(tokenCounter s = - 1 \<longrightarrow>
      (\<exists>e. createNFT c s = Inl e \<and> transact (Create c) s = (Failed e, s)) \<and>
      (sender c = owner s \<and> receiver_ok c \<and> tokens s (- 1) = None \<longrightarrow>
         createNFT c s = Inl ArithmeticOverflow) \<and>
      tokenCounter s + 1 = 0) \<and>
   (run ps (constructor d) = (rs, s') \<longrightarrow> distinct (created rs))"
proof (intro conjI impI)
  assume m: "tokenCounter s = - 1"
  then have "\<not> unat (tokenCounter s) + 1 < 2 ^ 256" by (simp add: unat_max)
  then have n: "\<And>i s1. createNFT c s \<noteq> Inr (i, s1)" by (simp add: createNFT_Inr_iff)
  show "\<exists>e. createNFT c s = Inl e \<and> transact (Create c) s = (Failed e, s)"
  proof (cases "createNFT c s")
    case (Inl e)
    then show ?thesis by simp
  next
    case (Inr x)
    with n [of "fst x" "snd x"] show ?thesis by simp
  qed
  from m show "tokenCounter s + 1 = 0" by simp
  assume "sender c = owner s \<and> receiver_ok c \<and> tokens s (- 1) = None"
  with m show "createNFT c s = Inl ArithmeticOverflow"
    by (simp add: createNFT_def onlyOwner_def safeMint_def setTokenURI_def checked_add_def
        unat_max)
next
  assume "run ps (constructor d) = (rs, s')"
  then show "distinct (created rs)" by (rule run_created_fresh(3))
qed

theorem counter_never_wraps_witness:
  "tokenCounter \<lparr>owner = 1, tokenCounter = - 1, tokens = Map.empty,
       tokenURIs = Map.empty\<rparr> = - 1 \<and>
   createNFT \<lparr>sender = 1, uri = ''https://x/1.json'', receiver_ok = True\<rparr>
     \<lparr>owner = 1, tokenCounter = - 1, tokens = Map.empty, tokenURIs = Map.empty\<rparr> =
     Inl ArithmeticOverflow \<and>
   transact (Create \<lparr>sender = 1, uri = ''https://x/1.json'', receiver_ok = True\<rparr>)
     \<lparr>owner = 1, tokenCounter = - 1, tokens = Map.empty, tokenURIs = Map.empty\<rparr> =
     (Failed ArithmeticOverflow,
      \<lparr>owner = 1, tokenCounter = - 1, tokens = Map.empty, tokenURIs = Map.empty\<rparr>) \<and>
   run [Create \<lparr>sender = 1, uri = ''https://x/1.json'', receiver_ok = True\<rparr>,
        Create \<lparr>sender = 1, uri = ''https://x/1.json'', receiver_ok = True\<rparr>]
       (constructor 1) =
     ([Created 0, Created 1],
      \<lparr>owner = 1, tokenCounter = 2,
       tokens = [0 \<mapsto> 1, 1 \<mapsto> 1],
       tokenURIs = [0 \<mapsto> ''https://x/1.json'', 1 \<mapsto> ''https://x/1.json'']\<rparr>) \<and>
   distinct (created [Created 0, Created 1])"
  using counter_never_wraps
    [of "\<lparr>owner = 1, tokenCounter = - 1, tokens = Map.empty, tokenURIs = Map.empty\<rparr>"
        "\<lparr>sender = 1, uri = ''https://x/1.json'', receiver_ok = True\<rparr>"
        "[Create \<lparr>sender = 1, uri = ''https://x/1.json'', receiver_ok = True\<rparr>,
          Create \<lparr>sender = 1, uri = ''https://x/1.json'', receiver_ok = True\<rparr>]"
        1 "[Created 0, Created 1]"
        "\<lparr>owner = 1, tokenCounter = 2,
         tokens = [0 \<mapsto> 1, 1 \<mapsto> 1],
         tokenURIs = [0 \<mapsto> ''https://x/1.json'', 1 \<mapsto> ''https://x/1.json'']\<rparr>"]
  by (simp add: constructor_def createNFT_def onlyOwner_def safeMint_def setTokenURI_def
      checked_add_def unat_max)

section \<open>Properties of the client scripts\<close>

lemma printed_errors_append:
  "printed_errors (t @ u) = printed_errors t @ printed_errors u"
  by (induction t rule: printed_errors.induct) simp_all

lemma deploy_main_quiet: "printed_errors (fst (deploy_main n)) = []"
  by (simp add: deploy_main_def split: sum.splits list.splits)

lemma mint_main_quiet: "printed_errors (fst (mint_main n)) = []"
  by (simp add: mint_main_def split: sum.splits)

lemma top_level_None:
  "snd r = None \<Longrightarrow> top_level r = \<lparr>trace = fst r, exitCode = 0\<rparr>"
  by (cases r) (simp add: top_level_def)

lemma top_level_Some:
  "snd r = Some e \<Longrightarrow> top_level r = \<lparr>trace = fst r @ [ConsoleError e], exitCode = 1\<rparr>"
  by (cases r) (simp add: top_level_def)

lemma deploy_main_succeeds_iff:
  "snd (deploy_main n) = None \<longleftrightarrow>
     (\<exists>a acc. signers n = Inr (a # acc)) \<and> factory n = Inr () \<and> (\<exists>t. deployment n = Inr t)"
  by (auto simp: deploy_main_def split: sum.splits list.splits)

lemma mint_main_succeeds_iff:
  "snd (mint_main n) = None \<longleftrightarrow>
     (\<exists>acc. signers n = Inr acc) \<and> contractAt n = Inr () \<and> submission n = Inr () \<and>
     confirmation n = Inr ()"
  by (auto simp: mint_main_def split: sum.splits)

text \<open>
  C6 (the code departs from the claim). The deploy script reports the address as soon as
  \<open>deploy()\<close> has resolved, that is, once the creation transaction is sent: it makes no
  call that waits for the network to confirm the instantiation, as \<open>tx.wait()\<close> does in
  the mint script. Against a network that accepts the transaction and then does not
  confirm it, the script still prints "NFT Contract deployed to:" and ends with exit
  code 0.
\<close>

theorem deploy_reports_unconfirmed:
  "deploy_script
     \<lparr>signers = Inr [''0xf39F''], factory = Inr (), deployment = Inr ''0x5FbD'',
      contractAt = Inr (), submission = Inr (),
      confirmation = Inl ''transaction was not mined''\<rparr> =
   \<lparr>trace =
      [GetSigners, ConsoleLog [''Deploying contracts with the account:'', ''0xf39F''],
       GetContractFactory ''MorphNFT'', Deploy,
       ConsoleLog [''NFT Contract deployed to:'', ''0x5FbD'']],
    exitCode = 0\<rparr>"
  by (simp add: deploy_script_def deploy_main_def top_level_def)

text \<open>
  The deploy script never waits: no run of it contains \<open>TxWait\<close>, and what the network
  does with the pending transaction changes nothing of the run.
\<close>

lemma deploy_never_waits:
  "TxWait \<notin> set (trace (deploy_script n)) \<and>
   deploy_script (n\<lparr>confirmation := x\<rparr>) = deploy_script n"
  by (simp add: deploy_script_def deploy_main_def top_level_def split: sum.splits list.splits)

text \<open>
  A failed deployment is fatal and is not tried again: the error is printed, the exit
  code is 1, the address is not reported, and the creation transaction is sent at most
  once in any run.
\<close>

lemma deploy_failure_fatal:
  "(case deployment n of
      Inl e \<Rightarrow>
        exitCode (deploy_script n) = 1 \<and>
        (\<forall>t. ConsoleLog [''NFT Contract deployed to:'', t] \<notin> set (trace (deploy_script n)))
    | Inr t \<Rightarrow> True) \<and>
   length (filter (\<lambda>x. x = Deploy) (trace (deploy_script n))) \<le> 1"
  by (simp add: deploy_script_def deploy_main_def top_level_def split: sum.splits list.splits)

text \<open>
  The mint script reports success only after \<open>tx.wait()\<close> has resolved: the report is
  in the trace exactly when every step succeeded, the confirmation included, and the
  wait then stands before it.
\<close>

lemma mint_waits:
  "(ConsoleLog [''NFT minted with URI:'', mint_tokenURI] \<in> set (trace (mint_script n)) \<longleftrightarrow>
      (\<exists>acc. signers n = Inr acc) \<and> contractAt n = Inr () \<and> submission n = Inr () \<and>
      confirmation n = Inr ()) \<and>
   (confirmation n = Inr () \<and> submission n = Inr () \<and> contractAt n = Inr () \<and>
    (\<exists>acc. signers n = Inr acc) \<longrightarrow>
      trace (mint_script n) =
        [GetSigners, GetContractAt ''MorphNFT'' nftAddress, SendCreateNFT mint_tokenURI,
         TxWait, ConsoleLog [''NFT minted with URI:'', mint_tokenURI]])"
  by (auto simp: mint_script_def mint_main_def top_level_def split: sum.splits)

text \<open>
  What each script does, step by step: the run stops at the first step that throws, and
  the handler prints the very error that step threw.
\<close>

lemma deploy_script_steps:
  "(signers n = Inl e \<longrightarrow>
      deploy_script n = \<lparr>trace = [GetSigners, ConsoleError e], exitCode = 1\<rparr>) \<and>
   (signers n = Inr [] \<longrightarrow>
      deploy_script n =
        \<lparr>trace = [GetSigners, ConsoleError
           ''TypeError: Cannot read properties of undefined (reading 'address')''],
         exitCode = 1\<rparr>) \<and>
   (signers n = Inr (a # acc) \<and> factory n = Inl e \<longrightarrow>
      deploy_script n =
        \<lparr>trace = [GetSigners, ConsoleLog [''Deploying contracts with the account:'', a],
           GetContractFactory ''MorphNFT'', ConsoleError e],
         exitCode = 1\<rparr>) \<and>
   (signers n = Inr (a # acc) \<and> factory n = Inr () \<and> deployment n = Inl e \<longrightarrow>
      deploy_script n =
        \<lparr>trace = [GetSigners, ConsoleLog [''Deploying contracts with the account:'', a],
           GetContractFactory ''MorphNFT'', Deploy, ConsoleError e],
         exitCode = 1\<rparr>) \<and>
   (signers n = Inr (a # acc) \<and> factory n = Inr () \<and> deployment n = Inr t \<longrightarrow>
      deploy_script n =
        \<lparr>trace = [GetSigners, ConsoleLog [''Deploying contracts with the account:'', a],
           GetContractFactory ''MorphNFT'', Deploy,
           ConsoleLog [''NFT Contract deployed to:'', t]],
         exitCode = 0\<rparr>)"
  by (simp add: deploy_script_def deploy_main_def top_level_def)

lemma mint_script_steps:
  "(signers n = Inl e \<longrightarrow>
      mint_script n = \<lparr>trace = [GetSigners, ConsoleError e], exitCode = 1\<rparr>) \<and>
   (signers n = Inr acc \<and> contractAt n = Inl e \<longrightarrow>
      mint_script n =
        \<lparr>trace = [GetSigners, GetContractAt ''MorphNFT'' nftAddress, ConsoleError e],
         exitCode = 1\<rparr>) \<and>
   (signers n = Inr acc \<and> contractAt n = Inr () \<and> submission n = Inl e \<longrightarrow>
      mint_script n =
        \<lparr>trace = [GetSigners, GetContractAt ''MorphNFT'' nftAddress,
           SendCreateNFT mint_tokenURI, ConsoleError e],
         exitCode = 1\<rparr>) \<and>
   (signers n = Inr acc \<and> contractAt n = Inr () \<and> submission n = Inr () \<and>
    confirmation n = Inl e \<longrightarrow>
      mint_script n =
        \<lparr>trace = [GetSigners, GetContractAt ''MorphNFT'' nftAddress,
           SendCreateNFT mint_tokenURI, TxWait, ConsoleError e],
         exitCode = 1\<rparr>) \<and>
   (signers n = Inr acc \<and> contractAt n = Inr () \<and> submission n = Inr () \<and>
    confirmation n = Inr () \<longrightarrow>
      mint_script n =
        \<lparr>trace = [GetSigners, GetContractAt ''MorphNFT'' nftAddress,
           SendCreateNFT mint_tokenURI, TxWait,
           ConsoleLog [''NFT minted with URI:'', mint_tokenURI]],
         exitCode = 0\<rparr>)"
  by (simp add: mint_script_def mint_main_def top_level_def)

lemma scripts_exit_and_print:
  "(case snd (deploy_main n) of
      None \<Rightarrow>
        exitCode (deploy_script n) = 0 \<and> printed_errors (trace (deploy_script n)) = []
    | Some e \<Rightarrow>
        exitCode (deploy_script n) = 1 \<and> printed_errors (trace (deploy_script n)) = [e] \<and>
        trace (deploy_script n) = fst (deploy_main n) @ [ConsoleError e]) \<and>
   (case snd (mint_main n) of
      None \<Rightarrow>
        exitCode (mint_script n) = 0 \<and> printed_errors (trace (mint_script n)) = []
    | Some e \<Rightarrow>
        exitCode (mint_script n) = 1 \<and> printed_errors (trace (mint_script n)) = [e] \<and>
        trace (mint_script n) = fst (mint_main n) @ [ConsoleError e])"
proof (intro conjI)
  show "case snd (deploy_main n) of
      None \<Rightarrow>
        exitCode (deploy_script n) = 0 \<and> printed_errors (trace (deploy_script n)) = []
    | Some e \<Rightarrow>
        exitCode (deploy_script n) = 1 \<and> printed_errors (trace (deploy_script n)) = [e] \<and>
        trace (deploy_script n) = fst (deploy_main n) @ [ConsoleError e]"
  proof (cases "snd (deploy_main n)")
    case None
    from top_level_None [OF None] deploy_main_quiet [of n] None show ?thesis
      by (simp add: deploy_script_def)
  next
    case (Some e)
    from top_level_Some [OF Some] deploy_main_quiet [of n] Some show ?thesis
      by (simp add: deploy_script_def printed_errors_append)
  qed
  show "case snd (mint_main n) of
      None \<Rightarrow>
        exitCode (mint_script n) = 0 \<and> printed_errors (trace (mint_script n)) = []
    | Some e \<Rightarrow>
        exitCode (mint_script n) = 1 \<and> printed_errors (trace (mint_script n)) = [e] \<and>
        trace (mint_script n) = fst (mint_main n) @ [ConsoleError e]"
  proof (cases "snd (mint_main n)")
    case None
    from top_level_None [OF None] mint_main_quiet [of n] None show ?thesis
      by (simp add: mint_script_def)
  next
    case (Some e)
    from top_level_Some [OF Some] mint_main_quiet [of n] Some show ?thesis
      by (simp add: mint_script_def printed_errors_append)
  qed
qed

text \<open>
  C7. In both scripts, the error thrown by whichever step of \<open>main\<close> throws
  (\<open>getSigners\<close>, the read of \<open>deployer.address\<close>, \<open>getContractFactory\<close>,
  \<open>deploy\<close>, \<open>getContractAt\<close>, \<open>createNFT\<close>, \<open>tx.wait\<close>) is that very error
  printed by the handler at the top level: exactly once, as the last effect of the run,
  with no later step made, and the exit code is 1. A run in which no step throws prints
  no error and the exit code is 0. A run throws exactly when one of its steps does.
\<close>

theorem scripts_catch_once:
  "((signers n = Inl e \<longrightarrow>
       deploy_script n = \<lparr>trace = [GetSigners, ConsoleError e], exitCode = 1\<rparr>) \<and>
    (signers n = Inr [] \<longrightarrow>
       deploy_script n =
         \<lparr>trace = [GetSigners, ConsoleError
            ''TypeError: Cannot read properties of undefined (reading 'address')''],
          exitCode = 1\<rparr>) \<and>
    (signers n = Inr (a # acc) \<and> factory n = Inl e \<longrightarrow>
       deploy_script n =
         \<lparr>trace = [GetSigners, ConsoleLog [''Deploying contracts with the account:'', a],
            GetContractFactory ''MorphNFT'', ConsoleError e],
          exitCode = 1\<rparr>) \<and>
    (signers n = Inr (a # acc) \<and> factory n = Inr () \<and> deployment n = Inl e \<longrightarrow>
       deploy_script n =
         \<lparr>trace = [GetSigners, ConsoleLog [''Deploying contracts with the account:'', a],
            GetContractFactory ''MorphNFT'', Deploy, ConsoleError e],
          exitCode = 1\<rparr>) \<and>
    (signers n = Inr (a # acc) \<and> factory n = Inr () \<and> deployment n = Inr t \<longrightarrow>
       deploy_script n =
         \<lparr>trace = [GetSigners, ConsoleLog [''Deploying contracts with the account:'', a],
            GetContractFactory ''MorphNFT'', Deploy,
            ConsoleLog [''NFT Contract deployed to:'', t]],
          exitCode = 0\<rparr>)) \<and>
   ((signers n = Inl e \<longrightarrow>
       mint_script n = \<lparr>trace = [GetSigners, ConsoleError e], exitCode = 1\<rparr>) \<and>
    (signers n = Inr sg \<and> contractAt n = Inl e \<longrightarrow>
       mint_script n =
         \<lparr>trace = [GetSigners, GetContractAt ''MorphNFT'' nftAddress, ConsoleError e],
          exitCode = 1\<rparr>) \<and>
    (signers n = Inr sg \<and> contractAt n = Inr () \<and> submission n = Inl e \<longrightarrow>
       mint_script n =
         \<lparr>trace = [GetSigners, GetContractAt ''MorphNFT'' nftAddress,
            SendCreateNFT mint_tokenURI, ConsoleError e],
          exitCode = 1\<rparr>) \<and>
    (signers n = Inr sg \<and> contractAt n = Inr () \<and> submission n = Inr () \<and>
     confirmation n = Inl e \<longrightarrow>
       mint_script n =
         \<lparr>trace = [GetSigners, GetContractAt ''MorphNFT'' nftAddress,
            SendCreateNFT mint_tokenURI, TxWait, ConsoleError e],
          exitCode = 1\<rparr>) \<and>
    (signers n = Inr sg \<and> contractAt n = Inr () \<and> submission n = Inr () \<and>
     confirmation n = Inr () \<longrightarrow>
       mint_script n =
         \<lparr>trace = [GetSigners, GetContractAt ''MorphNFT'' nftAddress,
            SendCreateNFT mint_tokenURI, TxWait,
            ConsoleLog [''NFT minted with URI:'', mint_tokenURI]],
          exitCode = 0\<rparr>)) \<and>
   ((case snd (deploy_main n) of
       None \<Rightarrow>
         exitCode (deploy_script n) = 0 \<and> printed_errors (trace (deploy_script n)) = []
     | Some e \<Rightarrow>
         exitCode (deploy_script n) = 1 \<and> printed_errors (trace (deploy_script n)) = [e] \<and>
         trace (deploy_script n) = fst (deploy_main n) @ [ConsoleError e]) \<and>
    (case snd (mint_main n) of
       None \<Rightarrow>
         exitCode (mint_script n) = 0 \<and> printed_errors (trace (mint_script n)) = []
     | Some e \<Rightarrow>
         exitCode (mint_script n) = 1 \<and> printed_errors (trace (mint_script n)) = [e] \<and>
         trace (mint_script n) = fst (mint_main n) @ [ConsoleError e])) \<and>
   (snd (deploy_main n) = None \<longleftrightarrow>
      (\<exists>a acc. signers n = Inr (a # acc)) \<and> factory n = Inr () \<and>
      (\<exists>t. deployment n = Inr t)) \<and>
   (snd (mint_main n) = None \<longleftrightarrow>
      (\<exists>acc. signers n = Inr acc) \<and> contractAt n = Inr () \<and> submission n = Inr () \<and>
      confirmation n = Inr ())"
  using deploy_script_steps [of n e a acc t] mint_script_steps [of n e sg]
    scripts_exit_and_print [of n] deploy_main_succeeds_iff [of n] mint_main_succeeds_iff [of n]
  by blast

theorem scripts_catch_once_witness:
  "deploy_script
     \<lparr>signers = Inl ''could not detect network'', factory = Inr (), deployment = Inr ''0x5FbD'',
      contractAt = Inr (), submission = Inr (),
      confirmation = Inr ()\<rparr> =
   \<lparr>trace =
      [GetSigners, ConsoleError ''could not detect network''],
    exitCode = 1\<rparr> \<and>
   mint_script
     \<lparr>signers = Inl ''could not detect network'', factory = Inr (), deployment = Inr ''0x5FbD'',
      contractAt = Inr (), submission = Inr (),
      confirmation = Inr ()\<rparr> =
   \<lparr>trace =
      [GetSigners, ConsoleError ''could not detect network''],
    exitCode = 1\<rparr> \<and>
   deploy_script
     \<lparr>signers = Inr [], factory = Inr (), deployment = Inr ''0x5FbD'',
      contractAt = Inl ''no contract at this address'', submission = Inr (),
      confirmation = Inr ()\<rparr> =
   \<lparr>trace =
      [GetSigners, ConsoleError
        ''TypeError: Cannot read properties of undefined (reading 'address')''],
    exitCode = 1\<rparr> \<and>
   mint_script
     \<lparr>signers = Inr [], factory = Inr (), deployment = Inr ''0x5FbD'',
      contractAt = Inl ''no contract at this address'', submission = Inr (),
      confirmation = Inr ()\<rparr> =
   \<lparr>trace =
      [GetSigners, GetContractAt ''MorphNFT'' nftAddress, ConsoleError ''no contract at this address''],
    exitCode = 1\<rparr> \<and>
   deploy_script
     \<lparr>signers = Inr [''0xf39F''], factory = Inl ''artifact MorphNFT not found'', deployment = Inr ''0x5FbD'',
      contractAt = Inr (), submission = Inl ''caller is not the owner'',
      confirmation = Inr ()\<rparr> =
   \<lparr>trace =
      [GetSigners, ConsoleLog [''Deploying contracts with the account:'', ''0xf39F''],
       GetContractFactory ''MorphNFT'', ConsoleError ''artifact MorphNFT not found''],
    exitCode = 1\<rparr> \<and>
   mint_script
     \<lparr>signers = Inr [''0xf39F''], factory = Inl ''artifact MorphNFT not found'', deployment = Inr ''0x5FbD'',
      contractAt = Inr (), submission = Inl ''caller is not the owner'',
      confirmation = Inr ()\<rparr> =
   \<lparr>trace =
      [GetSigners, GetContractAt ''MorphNFT'' nftAddress,
       SendCreateNFT mint_tokenURI, ConsoleError ''caller is not the owner''],
    exitCode = 1\<rparr> \<and>
   deploy_script
     \<lparr>signers = Inr [''0xf39F''], factory = Inr (), deployment = Inl ''insufficient funds'',
      contractAt = Inr (), submission = Inr (),
      confirmation = Inl ''transaction reverted''\<rparr> =
   \<lparr>trace =
      [GetSigners, ConsoleLog [''Deploying contracts with the account:'', ''0xf39F''],
       GetContractFactory ''MorphNFT'', Deploy, ConsoleError ''insufficient funds''],
    exitCode = 1\<rparr> \<and>
   mint_script
     \<lparr>signers = Inr [''0xf39F''], factory = Inr (), deployment = Inl ''insufficient funds'',
      contractAt = Inr (), submission = Inr (),
      confirmation = Inl ''transaction reverted''\<rparr> =
   \<lparr>trace =
      [GetSigners, GetContractAt ''MorphNFT'' nftAddress,
       SendCreateNFT mint_tokenURI, TxWait, ConsoleError ''transaction reverted''],
    exitCode = 1\<rparr> \<and>
   deploy_script
     \<lparr>signers = Inr [''0xf39F''], factory = Inr (), deployment = Inr ''0x5FbD'',
      contractAt = Inr (), submission = Inr (),
      confirmation = Inr ()\<rparr> =
   \<lparr>trace =
      [GetSigners, ConsoleLog [''Deploying contracts with the account:'', ''0xf39F''],
       GetContractFactory ''MorphNFT'', Deploy,
       ConsoleLog [''NFT Contract deployed to:'', ''0x5FbD'']],
    exitCode = 0\<rparr> \<and>
   mint_script
     \<lparr>signers = Inr [''0xf39F''], factory = Inr (), deployment = Inr ''0x5FbD'',
      contractAt = Inr (), submission = Inr (),
      confirmation = Inr ()\<rparr> =
   \<lparr>trace =
      [GetSigners, GetContractAt ''MorphNFT'' nftAddress,
       SendCreateNFT mint_tokenURI, TxWait,
       ConsoleLog [''NFT minted with URI:'', mint_tokenURI]],
    exitCode = 0\<rparr>"
  using
    scripts_catch_once
      [where n = "\<lparr>signers = Inl ''could not detect network'', factory = Inr (), deployment = Inr ''0x5FbD'', contractAt = Inr (), submission = Inr (), confirmation = Inr ()\<rparr>"
         and e = "''could not detect network''"]
    scripts_catch_once
      [where n = "\<lparr>signers = Inr [], factory = Inr (), deployment = Inr ''0x5FbD'', contractAt = Inl ''no contract at this address'', submission = Inr (), confirmation = Inr ()\<rparr>"
         and e = "''no contract at this address''"
         and sg = "[]"]
    scripts_catch_once
      [where n = "\<lparr>signers = Inr [''0xf39F''], factory = Inl ''artifact MorphNFT not found'', deployment = Inr ''0x5FbD'', contractAt = Inr (), submission = Inl ''caller is not the owner'', confirmation = Inr ()\<rparr>"
         and e = "''artifact MorphNFT not found''"
         and a = "''0xf39F''"
         and acc = "[]"]
    scripts_catch_once
      [where n = "\<lparr>signers = Inr [''0xf39F''], factory = Inl ''artifact MorphNFT not found'', deployment = Inr ''0x5FbD'', contractAt = Inr (), submission = Inl ''caller is not the owner'', confirmation = Inr ()\<rparr>"
         and e = "''caller is not the owner''"
         and sg = "[''0xf39F'']"]
    scripts_catch_once
      [where n = "\<lparr>signers = Inr [''0xf39F''], factory = Inr (), deployment = Inl ''insufficient funds'', contractAt = Inr (), submission = Inr (), confirmation = Inl ''transaction reverted''\<rparr>"
         and e = "''insufficient funds''"
         and a = "''0xf39F''"
         and acc = "[]"]
    scripts_catch_once
      [where n = "\<lparr>signers = Inr [''0xf39F''], factory = Inr (), deployment = Inl ''insufficient funds'', contractAt = Inr (), submission = Inr (), confirmation = Inl ''transaction reverted''\<rparr>"
         and e = "''transaction reverted''"
         and sg = "[''0xf39F'']"]
    scripts_catch_once
      [where n = "\<lparr>signers = Inr [''0xf39F''], factory = Inr (), deployment = Inr ''0x5FbD'', contractAt = Inr (), submission = Inr (), confirmation = Inr ()\<rparr>"
         and a = "''0xf39F''"
         and acc = "[]"
         and t = "''0x5FbD''"
         and sg = "[''0xf39F'']"]
  by (simp add: deploy_script_def deploy_main_def mint_script_def mint_main_def top_level_def)

section \<open>Properties of the viewer\<close>

text \<open>
  C8 as the specification states it asks for a read-only handle. The handler builds
  its handle on the signer that it first requests from the wallet, so the handle can
  also send transactions; here is a run in which the one handle constructed is not
  read-only.
\<close>

theorem viewer_handle_not_read_only:
  "handles (fst (getNFTData
      \<lparr>provider = Inr (), getSigner = Inr ''0xf39F'', read = Inr ''https://x/1.json''\<rparr>
      \<lparr>nftURI = []\<rparr>)) =
     [\<lparr>target = contractAddress, runner = SignerRunner ''0xf39F''\<rparr>] \<and>
   \<not> read_only \<lparr>target = contractAddress, runner = SignerRunner ''0xf39F''\<rparr>"
  by (simp add: getNFTData_def read_only_def Let_def)

text \<open>
  C8, amended. Loading the component fetches nothing. A click on the button requests
  the signer from the wallet, constructs a handle bound to that signer at the fixed
  address written in the source, calls \<open>tokenURI(0)\<close> on it and sets the displayed
  value to exactly the string returned (shown as "NFT URI: " and the string when it is
  not empty). When a step of the click fails, the read included, the displayed value
  is left as it was.
\<close>

theorem viewer_fetch_on_click:
  "fst mount = [] \<and> nftURI (snd mount) = [] \<and>
   contractAddress = ''0x77778EBa8Ed0f023B1f62C7dFBf0D5DE210B0dd3'' \<and>
   (provider w = Inr () \<and> getSigner w = Inr sg \<and> read w = Inr u \<longrightarrow>
      getNFTData w st =
        ([NewBrowserProvider, GetSigner,
          NewContract \<lparr>target = contractAddress, runner = SignerRunner sg\<rparr>,
          CallTokenURI \<lparr>target = contractAddress, runner = SignerRunner sg\<rparr> 0,
          SetNFTURI u],
         None, st\<lparr>nftURI := u\<rparr>) \<and>
      nftURI (snd (snd (getNFTData w st))) = u \<and>
      render (snd (snd (getNFTData w st))) =
        [H1 ''My Morph L2 NFT Collection'', Button ''Fetch NFT Data''] @
        (if u \<noteq> [] then [P (''NFT URI: '' @ u)] else [])) \<and>
   (fst (snd (getNFTData w' st')) = Some e \<longrightarrow>
      snd (snd (getNFTData w' st')) = st' \<and>
      render (snd (snd (getNFTData w' st'))) = render st') \<and>
   (fst (snd (getNFTData w' st')) = None \<longleftrightarrow>
      provider w' = Inr () \<and> (\<exists>sg. getSigner w' = Inr sg) \<and> (\<exists>u. read w' = Inr u))"
proof (intro conjI impI)
  show "fst mount = []" "nftURI (snd mount) = []" by (simp_all add: mount_def)
  show "contractAddress = ''0x77778EBa8Ed0f023B1f62C7dFBf0D5DE210B0dd3''"
    by (simp add: contractAddress_def)
next
  assume ok: "provider w = Inr () \<and> getSigner w = Inr sg \<and> read w = Inr u"
  then show g: "getNFTData w st =
        ([NewBrowserProvider, GetSigner,
          NewContract \<lparr>target = contractAddress, runner = SignerRunner sg\<rparr>,
          CallTokenURI \<lparr>target = contractAddress, runner = SignerRunner sg\<rparr> 0,
          SetNFTURI u],
         None, st\<lparr>nftURI := u\<rparr>)"
    by (simp add: getNFTData_def Let_def)
  show "nftURI (snd (snd (getNFTData w st))) = u" unfolding g by simp
  show "render (snd (snd (getNFTData w st))) =
        [H1 ''My Morph L2 NFT Collection'', Button ''Fetch NFT Data''] @
        (if u \<noteq> [] then [P (''NFT URI: '' @ u)] else [])"
    unfolding g by (simp add: render_def)
next
  assume f: "fst (snd (getNFTData w' st')) = Some e"
  then show k: "snd (snd (getNFTData w' st')) = st'"
    by (simp add: getNFTData_def Let_def split: sum.splits)
  show "render (snd (snd (getNFTData w' st'))) = render st'" unfolding k by simp
next
  show "fst (snd (getNFTData w' st')) = None \<longleftrightarrow>
      provider w' = Inr () \<and> (\<exists>sg. getSigner w' = Inr sg) \<and> (\<exists>u. read w' = Inr u)"
    by (auto simp: getNFTData_def Let_def split: sum.splits)
qed

theorem viewer_fetch_on_click_witness:
  "getNFTData
     \<lparr>provider = Inr (), getSigner = Inr ''0xf39F'', read = Inr ''https://x/1.json''\<rparr>
     \<lparr>nftURI = []\<rparr> =
     ([NewBrowserProvider, GetSigner,
       NewContract \<lparr>target = contractAddress, runner = SignerRunner ''0xf39F''\<rparr>,
       CallTokenURI \<lparr>target = contractAddress, runner = SignerRunner ''0xf39F''\<rparr> 0,
       SetNFTURI ''https://x/1.json''],
      None, \<lparr>nftURI = ''https://x/1.json''\<rparr>) \<and>
   render \<lparr>nftURI = ''https://x/1.json''\<rparr> =
     [H1 ''My Morph L2 NFT Collection'', Button ''Fetch NFT Data'',
      P ''NFT URI: https://x/1.json''] \<and>
   getNFTData
     \<lparr>provider = Inr (), getSigner = Inr ''0xf39F'', read = Inl ''call revert exception''\<rparr>
     \<lparr>nftURI = ''https://x/1.json''\<rparr> =
     ([NewBrowserProvider, GetSigner,
       NewContract \<lparr>target = contractAddress, runner = SignerRunner ''0xf39F''\<rparr>,
       CallTokenURI \<lparr>target = contractAddress, runner = SignerRunner ''0xf39F''\<rparr> 0],
      Some ''call revert exception'', \<lparr>nftURI = ''https://x/1.json''\<rparr>)"
  using viewer_fetch_on_click
    [of "\<lparr>provider = Inr (), getSigner = Inr ''0xf39F'', read = Inr ''https://x/1.json''\<rparr>"
        "''0xf39F''" "''https://x/1.json''" "\<lparr>nftURI = []\<rparr>"
        "\<lparr>provider = Inr (), getSigner = Inr ''0xf39F'',
          read = Inl ''call revert exception''\<rparr>"
        "\<lparr>nftURI = ''https://x/1.json''\<rparr>" "''call revert exception''"]
  by (simp add: getNFTData_def render_def Let_def)

end
